theory Spec2Isabelle
  imports Main
begin

section \<open>JavaScript values\<close>

text \<open>
  The services exchange JSON payloads and ad-hoc objects. A value is one of the JSON
  shapes, or \<open>undefined\<close>. Numbers are modelled as integers (JSON numbers that the
  upstream API sends are identifiers and counters); an object is the list of its own
  properties in insertion order.
\<close>

datatype jsval =
    JUndefined
  | JNull
  | JBool bool
  | JNum int
  | JStr string
  | JArr "jsval list"
  | JObj "(string \<times> jsval) list"

type_synonym obj = "(string \<times> jsval) list"

text \<open>A thrown \<open>Error\<close>: its \<open>name\<close> and its \<open>message\<close>.\<close>

datatype js_error = JsError (err_name: string) (err_message: string)

text \<open>Truthiness, as \<open>!v\<close>, \<open>v || d\<close> and \<open>if (v)\<close> test it.\<close>

fun truthy :: "jsval \<Rightarrow> bool" where
  "truthy JUndefined = False"
| "truthy JNull = False"
| "truthy (JBool b) = b"
| "truthy (JNum n) = (n \<noteq> 0)"
| "truthy (JStr s) = (s \<noteq> [])"
| "truthy (JArr xs) = True"
| "truthy (JObj kvs) = True"

definition falsy :: "jsval \<Rightarrow> bool" where
  "falsy v = (\<not> truthy v)"

definition js_or :: "jsval \<Rightarrow> jsval \<Rightarrow> jsval" where
  "js_or a b = (if truthy a then a else b)"

text \<open>
  Reading a property: \<open>v[k]\<close> throws a TypeError on \<open>null\<close> and \<open>undefined\<close>, looks
  the key up in an object, and is \<open>undefined\<close> for the property names this program
  reads on any other value (none of them is an inherited property).
\<close>

definition quote :: "string \<Rightarrow> string" where
  "quote k = [CHR 0x27] @ k @ [CHR 0x27]"

fun getProp :: "jsval \<Rightarrow> string \<Rightarrow> js_error + jsval" where
  "getProp JUndefined k =
     Inl (JsError ''TypeError'' (''Cannot read properties of undefined (reading '' @ quote k @ '')''))"
| "getProp JNull k =
     Inl (JsError ''TypeError'' (''Cannot read properties of null (reading '' @ quote k @ '')''))"
| "getProp (JObj kvs) k = Inr (case map_of kvs k of None \<Rightarrow> JUndefined | Some v \<Rightarrow> v)"
| "getProp v k = Inr JUndefined"

text \<open>Reading a property of an object literal the program built itself.\<close>

definition field :: "obj \<Rightarrow> string \<Rightarrow> jsval" where
  "field kvs k = (case map_of kvs k of None \<Rightarrow> JUndefined | Some v \<Rightarrow> v)"

text \<open>Writing a property: an existing key keeps its place, a new key goes last.\<close>

fun setProp :: "string \<Rightarrow> jsval \<Rightarrow> obj \<Rightarrow> obj" where
  "setProp k v [] = [(k, v)]"
| "setProp k v ((k', v') # kvs) =
     (if k' = k then (k, v) # kvs else (k', v') # setProp k v kvs)"

text \<open>
  \<open>Array.prototype.includes\<close> compares with SameValueZero: primitives by value,
  objects and arrays by reference. The two sides always come from different payloads
  here, so an object or array is never the same reference as the other side.
\<close>

fun sameValueZero :: "jsval \<Rightarrow> jsval \<Rightarrow> bool" where
  "sameValueZero (JArr xs) b = False"
| "sameValueZero (JObj kvs) b = False"
| "sameValueZero a b = (a = b)"

definition array_includes :: "jsval list \<Rightarrow> jsval \<Rightarrow> bool" where
  "array_includes xs v = list_ex (\<lambda>x. sameValueZero x v) xs"

text \<open>Decimal rendering of a number inside a template string.\<close>

function string_of_nat :: "nat \<Rightarrow> string" where
  "string_of_nat n =
     (if n < 10 then [char_of (48 + n)]
      else string_of_nat (n div 10) @ [char_of (48 + n mod 10)])"
  by pat_completeness auto
termination
  by (relation "measure id") auto

declare string_of_nat.simps [simp del]

text \<open>\<open>v.length\<close> of a truthy value.\<close>

fun js_length :: "jsval \<Rightarrow> jsval" where
  "js_length (JArr xs) = JNum (int (length xs))"
| "js_length (JStr s) = JNum (int (length s))"
| "js_length (JObj kvs) = field kvs ''length''"
| "js_length v = JUndefined"

text \<open>The own enumerable properties that an object spread \<open>{...v}\<close> copies.\<close>

fun ownProps :: "jsval \<Rightarrow> obj" where
  "ownProps (JObj kvs) = kvs"
| "ownProps (JArr xs) = zip (map string_of_nat [0..<length xs]) xs"
| "ownProps (JStr s) = zip (map string_of_nat [0..<length s]) (map (\<lambda>c. JStr [c]) s)"
| "ownProps v = []"

section \<open>The outside world of one call\<close>

text \<open>
  What axios rejects with: the catch block of \<open>getAttendanceData\<close> reads \<open>code\<close>,
  \<open>response\<close> (status, the \<open>message\<close> of the body when it has one, status text),
  \<open>request\<close> and \<open>message\<close>. An ordinary \<open>Error\<close> thrown inside the try block has
  none of the first three.
\<close>

record axios_error =
  ax_code :: "string option"
  ax_response :: "(nat \<times> string option \<times> string) option"
  ax_request :: bool
  ax_message :: string

datatype axios_outcome = Resolved nat jsval | Rejected axios_error

record query_params =
  q_start :: string
  q_end :: string
  q_api_token :: "string option"
  q_per_page :: jsval
  q_criteria :: string

record request =
  url :: "string option"
  params :: query_params
  timeout :: nat
  headers :: "(string \<times> string) list"

text \<open>
  One call of a service method runs against an environment: the clock readings it
  takes (\<open>new Date()\<close> at entry, inside \<open>getRecentAttendanceData\<close>, and when the result
  object is built), the calendar year of \<open>new Date().getFullYear()\<close>, the answer of the
  remote API to the request issued, and whether the Google client calls succeed
  (\<open>None\<close>) or reject with an error.
\<close>

record env =
  clock_start :: int
  clock_fetch :: int
  clock_end :: int
  currentYear :: nat
  http :: "request \<Rightarrow> axios_outcome"
  sheets_init :: "js_error option"
  sheets_get :: "js_error option"
  sheets_append :: "js_error option"

section \<open>AttendanceService\<close>

record AttendanceService =
  baseUrl :: "string option"
  apiToken :: "string option"
  perPage :: jsval
  lastSyncTime :: "int option"

text \<open>The constructor reads \<open>process.env\<close>; \<open>PER_PAGE || 500\<close> falls back on an empty string too.\<close>

definition newAttendanceService :: "(string \<Rightarrow> string option) \<Rightarrow> AttendanceService" where
  "newAttendanceService process_env =
     \<lparr> baseUrl = process_env ''TIPSOI_BASE_URL'',
       apiToken = process_env ''TIPSOI_API_TOKEN'',
       perPage = (case process_env ''PER_PAGE'' of
                    None \<Rightarrow> JNum 500
                  | Some s \<Rightarrow> js_or (JStr s) (JNum 500)),
       lastSyncTime = None \<rparr>"

record fetch_result =
  records :: jsval
  meta :: jsval
  project :: jsval
  links :: jsval

text \<open>
  The request \<open>getAttendanceData\<close> hands to \<open>axios.get\<close> (source lines 23 to 46). The
  parameters \<open>startTime\<close> and \<open>endTime\<close> are only logged.
\<close>

definition getAttendanceData_request ::
  "env \<Rightarrow> AttendanceService \<Rightarrow> int \<Rightarrow> int \<Rightarrow> string \<Rightarrow> request" where
  "getAttendanceData_request e a startTime endTime criteria =
     (let defaultStartTime = string_of_nat (currentYear e) @ ''-01-01T00:00:00'';
          defaultEndTime = string_of_nat (currentYear e + 1) @ ''-12-31T23:59:59''
      in \<lparr> url = baseUrl a,
            params = \<lparr> q_start = defaultStartTime,
                       q_end = defaultEndTime,
                       q_api_token = apiToken a,
                       q_per_page = perPage a,
                       q_criteria = criteria \<rparr>,
            timeout = 30000,
            headers = [(''Accept'', ''application/json''),
                       (''User-Agent'', ''TIPSOI-Attendance-Sync/1.0'')] \<rparr>)"

definition thrown :: "js_error \<Rightarrow> axios_error" where
  "thrown err = \<lparr> ax_code = None, ax_response = None, ax_request = False,
                   ax_message = err_message err \<rparr>"

text \<open>The try block of \<open>getAttendanceData\<close>: what it returns, or what it throws.\<close>

definition getAttendanceData_try ::
  "env \<Rightarrow> AttendanceService \<Rightarrow> int \<Rightarrow> int \<Rightarrow> string \<Rightarrow> axios_error + fetch_result" where
  "getAttendanceData_try e a startTime endTime criteria =
     (case http e (getAttendanceData_request e a startTime endTime criteria) of
        Rejected err \<Rightarrow> Inl err
      | Resolved status data \<Rightarrow>
          if status \<noteq> 200
          then Inl (thrown (JsError ''Error''
                 (''API request failed with status: '' @ string_of_nat status)))
          else (case getProp data ''data'' of
                  Inl err \<Rightarrow> Inl (thrown err)
                | Inr d \<Rightarrow>
                    (case getProp data ''meta'' of
                       Inl err \<Rightarrow> Inl (thrown err)
                     | Inr m \<Rightarrow>
                    (case getProp data ''project'' of
                       Inl err \<Rightarrow> Inl (thrown err)
                     | Inr p \<Rightarrow>
                    (case getProp data ''links'' of
                       Inl err \<Rightarrow> Inl (thrown err)
                     | Inr l \<Rightarrow>
                         if falsy d
                         then Inr \<lparr> records = JArr [], meta = js_or m (JObj []),
                                    project = js_or p (JObj []), links = JUndefined \<rparr>
                         else Inr \<lparr> records = d, meta = js_or m (JObj []),
                                    project = js_or p (JObj []),
                                    links = js_or l (JObj []) \<rparr>)))))"

text \<open>The catch block: every failure is rethrown as a plain \<open>Error\<close> with a classified message.\<close>

definition classify :: "axios_error \<Rightarrow> js_error" where
  "classify err =
     (if ax_code err = Some ''ECONNABORTED''
      then JsError ''Error'' ''Request timeout - TIPSOI API took too long to respond''
      else (case ax_response err of
              Some (status, data_message, statusText) \<Rightarrow>
                JsError ''Error'' (''TIPSOI API error ('' @ string_of_nat status @ ''): '' @
                  (case data_message of
                     None \<Rightarrow> statusText
                   | Some m \<Rightarrow> if m \<noteq> [] then m else statusText))
            | None \<Rightarrow>
                if ax_request err
                then JsError ''Error'' ''No response from TIPSOI API - network error''
                else JsError ''Error'' (''Request setup error: '' @ ax_message err)))"

definition getAttendanceData ::
  "env \<Rightarrow> AttendanceService \<Rightarrow> int \<Rightarrow> int \<Rightarrow> string \<Rightarrow> js_error + fetch_result" where
  "getAttendanceData e a startTime endTime criteria =
     (case getAttendanceData_try e a startTime endTime criteria of
        Inr result \<Rightarrow> Inr result
      | Inl err \<Rightarrow> Inl (classify err))"

text \<open>
  \<open>getRecentAttendanceData\<close> takes no parameter (an argument passed to it is ignored).
  It returns the result, or the error thrown, with the service as it leaves it.
\<close>

definition getRecentAttendanceData ::
  "env \<Rightarrow> AttendanceService \<Rightarrow> (js_error + fetch_result) \<times> AttendanceService" where
  "getRecentAttendanceData e a =
     (let endTime = clock_fetch e;
          startTime = (case lastSyncTime a of
                         Some t \<Rightarrow> t
                       | None \<Rightarrow> endTime - 24 * 60 * 60 * 1000)
      in case getAttendanceData e a startTime endTime ''sync_time'' of
           Inl err \<Rightarrow> (Inl err, a)
         | Inr result \<Rightarrow> (Inr result, a\<lparr>lastSyncTime := Some endTime\<rparr>))"

definition getAttendanceDataForRange ::
  "env \<Rightarrow> AttendanceService \<Rightarrow> int \<Rightarrow> int \<Rightarrow> js_error + fetch_result" where
  "getAttendanceDataForRange e a startDate endDate =
     getAttendanceData e a startDate endDate ''sync_time''"

subsection \<open>Validation and normalisation\<close>

definition requiredFields :: "string list" where
  "requiredFields =
     [''uid'', ''sync_time'', ''logged_time'', ''type'', ''device_identifier'',
      ''person_identifier'']"

text \<open>The loop over the required fields, leaving at the first falsy one.\<close>

fun hasFields :: "jsval \<Rightarrow> string list \<Rightarrow> js_error + bool" where
  "hasFields r [] = Inr True"
| "hasFields r (f # fs) =
     (case getProp r f of
        Inl err \<Rightarrow> Inl err
      | Inr v \<Rightarrow> if falsy v then Inr False else hasFields r fs)"

definition validateAttendanceRecord :: "jsval \<Rightarrow> js_error + bool" where
  "validateAttendanceRecord r =
     (case hasFields r requiredFields of
        Inl err \<Rightarrow> Inl err
      | Inr ok \<Rightarrow>
          if \<not> ok then Inr False
          else (case getProp r ''type'' of
                  Inl err \<Rightarrow> Inl err
                | Inr t \<Rightarrow>
                    if \<not> array_includes [JStr ''card'', JStr ''fingerprint'', JStr ''face''] t
                    then Inr False
                    else Inr True))"

text \<open>\<open>records.filter(...)\<close>: an exception of the callback ends the whole call.\<close>

fun filterRecords :: "jsval list \<Rightarrow> js_error + jsval list" where
  "filterRecords [] = Inr []"
| "filterRecords (r # rs) =
     (case validateAttendanceRecord r of
        Inl err \<Rightarrow> Inl err
      | Inr keep \<Rightarrow>
          (case filterRecords rs of
             Inl err \<Rightarrow> Inl err
           | Inr kept \<Rightarrow> Inr (if keep then r # kept else kept)))"

text \<open>The callback of \<open>.map(...)\<close>: the spread, then the five properties written after it.\<close>

definition normalizeRecord :: "jsval \<Rightarrow> jsval \<Rightarrow> js_error + obj" where
  "normalizeRecord proj r =
     (case getProp r ''rfid'' of
        Inl err \<Rightarrow> Inl err
      | Inr rfid \<Rightarrow>
     (case getProp r ''location'' of
        Inl err \<Rightarrow> Inl err
      | Inr location \<Rightarrow>
     (case getProp r ''primary_display_text'' of
        Inl err \<Rightarrow> Inl err
      | Inr primary \<Rightarrow>
     (case getProp r ''secondary_display_text'' of
        Inl err \<Rightarrow> Inl err
      | Inr secondary \<Rightarrow>
          Inr (setProp ''secondary_display_text'' (js_or secondary (JStr ''''))
              (setProp ''primary_display_text'' (js_or primary (JStr ''''))
              (setProp ''location'' (js_or location (JStr ''''))
              (setProp ''rfid'' (js_or rfid (JStr ''''))
              (setProp ''project'' proj (ownProps r))))))))))"

fun mapRecords :: "jsval \<Rightarrow> jsval list \<Rightarrow> js_error + obj list" where
  "mapRecords proj [] = Inr []"
| "mapRecords proj (r # rs) =
     (case normalizeRecord proj r of
        Inl err \<Rightarrow> Inl err
      | Inr out \<Rightarrow>
          (case mapRecords proj rs of
             Inl err \<Rightarrow> Inl err
           | Inr outs \<Rightarrow> Inr (out # outs)))"

text \<open>\<open>project = {}\<close> is the default of a parameter left \<open>undefined\<close>.\<close>

definition processAttendanceRecords :: "jsval \<Rightarrow> jsval \<Rightarrow> js_error + obj list" where
  "processAttendanceRecords recs proj =
     (case recs of
        JArr rs \<Rightarrow>
          (case filterRecords rs of
             Inl err \<Rightarrow> Inl err
           | Inr kept \<Rightarrow> mapRecords (if proj = JUndefined then JObj [] else proj) kept)
      | _ \<Rightarrow> Inr [])"

subsection \<open>Status\<close>

record attendance_status =
  status_baseUrl :: "string option"
  hasToken :: bool
  status_perPage :: jsval
  status_lastSyncTime :: "int option"
  tokenPreview :: string

definition getStatus :: "AttendanceService \<Rightarrow> attendance_status" where
  "getStatus a =
     \<lparr> status_baseUrl = baseUrl a,
       hasToken = (case apiToken a of None \<Rightarrow> False | Some t \<Rightarrow> t \<noteq> []),
       status_perPage = perPage a,
       status_lastSyncTime = lastSyncTime a,
       tokenPreview = (case apiToken a of
                         None \<Rightarrow> ''Not set''
                       | Some t \<Rightarrow> if t \<noteq> [] then take 8 t @ ''...'' else ''Not set'') \<rparr>"

section \<open>GoogleSheetsService\<close>

text \<open>
  The service and the remote spreadsheet it is bound to: the rows of the sheet, each a
  list of cells, row 1 first. The store gives back the cells it was given, a write that
  is rejected leaves the sheet as it was, and \<open>values.append\<close> puts the new rows after
  the last one.
\<close>

record GoogleSheetsService =
  initialized :: bool
  sheet :: "jsval list list"

text \<open>The header row that \<open>createHeaderRow\<close> writes to \<open>A1:M1\<close> of an empty sheet.\<close>

definition headerRow :: "jsval list" where
  "headerRow =
     map JStr [''UID'', ''Sync Time'', ''Logged Time'', ''Type'', ''Device ID'', ''Location'',
       ''Person ID'', ''RFID'', ''Primary Display'', ''Secondary Display'', ''Project Code'',
       ''Project Name'', ''Organization'']"

definition initialize :: "env \<Rightarrow> GoogleSheetsService \<Rightarrow> (js_error + unit) \<times> GoogleSheetsService" where
  "initialize e g =
     (case sheets_init e of
        Some err \<Rightarrow> (Inl err, g)
      | None \<Rightarrow> (Inr (), g\<lparr>initialized := True\<rparr>))"

definition ensureInitialized ::
  "env \<Rightarrow> GoogleSheetsService \<Rightarrow> (js_error + unit) \<times> GoogleSheetsService" where
  "ensureInitialized e g = (if \<not> initialized g then initialize e g else (Inr (), g))"

text \<open>
  \<open>response.data.values\<close> for the range \<open>A:A\<close>: absent for an empty sheet, else one
  array per row holding the cell of column A when the row has one.
\<close>

definition columnA :: "jsval list list \<Rightarrow> jsval list list option" where
  "columnA rows = (if rows = [] then None else Some (map (take 1) rows))"

definition firstCell :: "jsval list \<Rightarrow> jsval" where
  "firstCell row = (case row of [] \<Rightarrow> JUndefined | c # cs \<Rightarrow> c)"

text \<open>
  \<open>ensureInitialized\<close> is awaited before the try block, so its error leaves the
  function; an error of the read inside the try block is caught, logged and answered
  with the empty array.
\<close>

definition getExistingUIDs ::
  "env \<Rightarrow> GoogleSheetsService \<Rightarrow> (js_error + jsval list) \<times> GoogleSheetsService" where
  "getExistingUIDs e g =
     (case ensureInitialized e g of
        (Inl err, g1) \<Rightarrow> (Inl err, g1)
      | (Inr u, g1) \<Rightarrow>
          (case sheets_get e of
             Some err \<Rightarrow> (Inr [], g1)
           | None \<Rightarrow>
               (case columnA (sheet g1) of
                  None \<Rightarrow> (Inr [], g1)
                | Some vals \<Rightarrow>
                    if length vals > 1
                    then (Inr (filter truthy (map firstCell (drop 1 vals))), g1)
                    else (Inr [], g1))))"

text \<open>\<open>record.project?.code\<close>: \<open>undefined\<close> when the project is \<open>null\<close> or \<open>undefined\<close>.\<close>

definition optProp :: "jsval \<Rightarrow> string \<Rightarrow> jsval" where
  "optProp v k = (case getProp v k of Inl err \<Rightarrow> JUndefined | Inr x \<Rightarrow> x)"

definition toRow :: "obj \<Rightarrow> jsval list" where
  "toRow r =
     [field r ''uid'',
      field r ''sync_time'',
      field r ''logged_time'',
      field r ''type'',
      field r ''device_identifier'',
      field r ''location'',
      field r ''person_identifier'',
      js_or (field r ''rfid'') (JStr []),
      field r ''primary_display_text'',
      field r ''secondary_display_text'',
      js_or (optProp (field r ''project'') ''code'') (JStr []),
      js_or (optProp (field r ''project'') ''name'') (JStr []),
      js_or (optProp (field r ''project'') ''organization'') (JStr [])]"

text \<open>
  The value returned is \<open>None\<close> for the bare \<open>return;\<close> (that is, \<open>undefined\<close>) and the
  number of rows written otherwise. The catch block rethrows.
\<close>

definition appendAttendanceData ::
  "env \<Rightarrow> GoogleSheetsService \<Rightarrow> obj list \<Rightarrow> (js_error + nat option) \<times> GoogleSheetsService" where
  "appendAttendanceData e g attendanceRecords =
     (case ensureInitialized e g of
        (Inl err, g1) \<Rightarrow> (Inl err, g1)
      | (Inr u, g1) \<Rightarrow>
          if length attendanceRecords = 0 then (Inr None, g1)
          else
            (case getExistingUIDs e g1 of
               (Inl err, g2) \<Rightarrow> (Inl err, g2)
             | (Inr existingUIDs, g2) \<Rightarrow>
                 (let newRecords =
                        filter (\<lambda>r. \<not> array_includes existingUIDs (field r ''uid''))
                          attendanceRecords
                  in if length newRecords = 0 then (Inr None, g2)
                     else
                       (case sheets_append e of
                          Some err \<Rightarrow> (Inl err, g2)
                        | None \<Rightarrow>
                            (Inr (Some (length newRecords)),
                             g2\<lparr>sheet := sheet g2 @ map toRow newRecords\<rparr>)))))"

section \<open>SyncService\<close>

text \<open>
  The result objects. A property the object literal does not have is \<open>JUndefined\<close> or
  \<open>None\<close>; \<open>error\<close> is the \<open>name\<close> of the error caught.
\<close>

record outcome =
  success :: bool
  message :: string
  error :: "string option"
  recordsFetched :: jsval
  timestamp :: int
  duration :: "int option"

record sync_result = outcome +
  recordsAdded :: "nat option"

record data_result = outcome +
  out_records :: "obj list"
  out_project :: jsval
  filters :: "obj option"

text \<open>The orchestrator (its scheduler fields are left out: no sync path reads them).\<close>

record SyncService =
  attendanceService :: AttendanceService
  googleSheetsService :: GoogleSheetsService
  isRunning :: bool
  lastSyncResult :: "sync_result option"

text \<open>\<open>recordsAdded || 0\<close>\<close>

definition orZero :: "nat option \<Rightarrow> nat" where
  "orZero added = (case added of None \<Rightarrow> 0 | Some n \<Rightarrow> if n \<noteq> 0 then n else 0)"

text \<open>
  The try block of \<open>performSync\<close>: the result it returns or the error it throws, and the
  service as the block leaves it.
\<close>

definition performSync_try :: "env \<Rightarrow> SyncService \<Rightarrow> (js_error + sync_result) \<times> SyncService" where
  "performSync_try e s =
     (let syncStartTime = clock_start e in
      if isRunning s
      then (Inr \<lparr> success = False, message = ''Sync already in progress'', error = None,
                  recordsFetched = JUndefined, timestamp = syncStartTime, duration = None,
                  recordsAdded = None \<rparr>, s)
      else
        (let s1 = s\<lparr>isRunning := True\<rparr> in
         case getRecentAttendanceData e (attendanceService s1) of
           (Inl err, a) \<Rightarrow> (Inl err, s1\<lparr>attendanceService := a\<rparr>)
         | (Inr attendanceResult, a) \<Rightarrow>
             (let s2 = s1\<lparr>attendanceService := a\<rparr> in
              if falsy (records attendanceResult) \<or> js_length (records attendanceResult) = JNum 0
              then (let r = \<lparr> success = True, message = ''No new records'', error = None,
                              recordsFetched = JNum 0, timestamp = syncStartTime,
                              duration = Some (clock_end e - syncStartTime),
                              recordsAdded = Some 0 \<rparr>
                    in (Inr r, s2\<lparr>lastSyncResult := Some r\<rparr>))
              else
                (case processAttendanceRecords (records attendanceResult)
                        (project attendanceResult) of
                   Inl err \<Rightarrow> (Inl err, s2)
                 | Inr processedRecords \<Rightarrow>
                     if length processedRecords = 0
                     then (let r = \<lparr> success = True, message = ''No valid records to sync'',
                                     error = None,
                                     recordsFetched = js_length (records attendanceResult),
                                     timestamp = syncStartTime,
                                     duration = Some (clock_end e - syncStartTime),
                                     recordsAdded = Some 0 \<rparr>
                           in (Inr r, s2\<lparr>lastSyncResult := Some r\<rparr>))
                     else
                       (case appendAttendanceData e (googleSheetsService s2) processedRecords of
                          (Inl err, g) \<Rightarrow> (Inl err, s2\<lparr>googleSheetsService := g\<rparr>)
                        | (Inr added, g) \<Rightarrow>
                            (let r = \<lparr> success = True,
                                       message = ''Sync completed successfully'', error = None,
                                       recordsFetched = js_length (records attendanceResult),
                                       timestamp = syncStartTime,
                                       duration = Some (clock_end e - syncStartTime),
                                       recordsAdded = Some (orZero added) \<rparr>
                             in (Inr r, s2\<lparr>googleSheetsService := g,
                                           lastSyncResult := Some r\<rparr>)))))))"

text \<open>
  \<open>performSync\<close> with its catch block (which records the failure) and its finally
  block, which runs after every exit of the try block, the early return included.
  A call is modelled from entry to completion. Calls interleave at an \<open>await\<close> only, so
  a service that has \<open>isRunning\<close> set at entry is a service with another attempt
  suspended at an \<open>await\<close>; the rejected path has no \<open>await\<close> and runs in one piece.
\<close>

definition performSync :: "env \<Rightarrow> SyncService \<Rightarrow> sync_result \<times> SyncService" where
  "performSync e s =
     (case performSync_try e s of
        (Inr r, s') \<Rightarrow> (r, s'\<lparr>isRunning := False\<rparr>)
      | (Inl err, s') \<Rightarrow>
          (let r = \<lparr> success = False, message = err_message err, error = Some (err_name err),
                     recordsFetched = JNum 0, timestamp = clock_start e,
                     duration = Some (clock_end e - clock_start e),
                     recordsAdded = Some 0 \<rparr>
           in (r, s'\<lparr>lastSyncResult := Some r, isRunning := False\<rparr>)))"

text \<open>The try block of \<open>performManualSync\<close>.\<close>

definition performManualSync_try ::
  "env \<Rightarrow> int \<Rightarrow> int \<Rightarrow> SyncService \<Rightarrow> (js_error + sync_result) \<times> SyncService" where
  "performManualSync_try e startDate endDate s =
     (let syncStartTime = clock_start e in
      if isRunning s
      then (Inl (JsError ''Error'' ''Another sync operation is already running''), s)
      else
        (let s1 = s\<lparr>isRunning := True\<rparr> in
         case getAttendanceDataForRange e (attendanceService s1) startDate endDate of
           Inl err \<Rightarrow> (Inl err, s1)
         | Inr attendanceResult \<Rightarrow>
             if falsy (records attendanceResult) \<or> js_length (records attendanceResult) = JNum 0
             then (Inr \<lparr> success = True,
                         message = ''No records found in the specified date range'',
                         error = None, recordsFetched = JNum 0, timestamp = syncStartTime,
                         duration = Some (clock_end e - syncStartTime),
                         recordsAdded = Some 0 \<rparr>, s1)
             else
               (case processAttendanceRecords (records attendanceResult)
                       (project attendanceResult) of
                  Inl err \<Rightarrow> (Inl err, s1)
                | Inr processedRecords \<Rightarrow>
                    (case appendAttendanceData e (googleSheetsService s1) processedRecords of
                       (Inl err, g) \<Rightarrow> (Inl err, s1\<lparr>googleSheetsService := g\<rparr>)
                     | (Inr added, g) \<Rightarrow>
                         (Inr \<lparr> success = True,
                                 message = ''Manual sync completed successfully'',
                                 error = None,
                                 recordsFetched = js_length (records attendanceResult),
                                 timestamp = syncStartTime,
                                 duration = Some (clock_end e - syncStartTime),
                                 recordsAdded = Some (orZero added) \<rparr>,
                          s1\<lparr>googleSheetsService := g\<rparr>)))))"

definition performManualSync ::
  "env \<Rightarrow> int \<Rightarrow> int \<Rightarrow> SyncService \<Rightarrow> sync_result \<times> SyncService" where
  "performManualSync e startDate endDate s =
     (case performManualSync_try e startDate endDate s of
        (Inr r, s') \<Rightarrow> (r, s'\<lparr>isRunning := False\<rparr>)
      | (Inl err, s') \<Rightarrow>
          (\<lparr> success = False, message = err_message err, error = Some (err_name err),
             recordsFetched = JUndefined, timestamp = clock_start e,
             duration = Some (clock_end e - clock_start e), recordsAdded = None \<rparr>,
           s'\<lparr>isRunning := False\<rparr>))"

text \<open>
  \<open>fetchAttendanceData\<close>, the read-only query behind \<open>GET /data\<close>. It builds
  \<open>queryFilters\<close> and passes them to \<open>getRecentAttendanceData\<close>, which takes no
  parameter.
\<close>

definition fetchAttendanceData :: "env \<Rightarrow> obj \<Rightarrow> SyncService \<Rightarrow> data_result \<times> SyncService" where
  "fetchAttendanceData e flt s =
     (let fetchStartTime = clock_start e;
          defaultStartTime =
            js_or (field flt ''startTime'')
              (JStr (string_of_nat (currentYear e) @ ''-01-01T00:00:00''));
          defaultEndTime =
            js_or (field flt ''endTime'')
              (JStr (string_of_nat (currentYear e + 1) @ ''-12-31T23:59:59''));
          queryFilters = setProp ''endTime'' defaultEndTime
                           (setProp ''startTime'' defaultStartTime flt);
          failed = (\<lambda>err.
            \<lparr> success = False, message = err_message err, error = Some (err_name err),
              recordsFetched = JNum 0, timestamp = fetchStartTime,
              duration = Some (clock_end e - fetchStartTime),
              out_records = [], out_project = JUndefined, filters = None \<rparr>)
      in case getRecentAttendanceData e (attendanceService s) of
           (Inl err, a) \<Rightarrow> (failed err, s\<lparr>attendanceService := a\<rparr>)
         | (Inr attendanceResult, a) \<Rightarrow>
             (let s1 = s\<lparr>attendanceService := a\<rparr> in
              if falsy (records attendanceResult) \<or> js_length (records attendanceResult) = JNum 0
              then (\<lparr> success = True, message = ''No records found'', error = None,
                      recordsFetched = JNum 0, timestamp = fetchStartTime,
                      duration = Some (clock_end e - fetchStartTime),
                      out_records = [], out_project = project attendanceResult,
                      filters = Some queryFilters \<rparr>, s1)
              else
                (case processAttendanceRecords (records attendanceResult)
                        (project attendanceResult) of
                   Inl err \<Rightarrow> (failed err, s1)
                 | Inr processedRecords \<Rightarrow>
                     if length processedRecords = 0
                     then (\<lparr> success = True, message = ''No valid records after processing'',
                             error = None,
                             recordsFetched = js_length (records attendanceResult),
                             timestamp = fetchStartTime,
                             duration = Some (clock_end e - fetchStartTime),
                             out_records = [], out_project = project attendanceResult,
                             filters = Some queryFilters \<rparr>, s1)
                     else (\<lparr> success = True, message = ''Data fetched successfully'',
                             error = None,
                             recordsFetched = JNum (int (length processedRecords)),
                             timestamp = fetchStartTime,
                             duration = Some (clock_end e - fetchStartTime),
                             out_records = processedRecords,
                             out_project = project attendanceResult,
                             filters = Some queryFilters \<rparr>, s1))))"

section \<open>Notions of the specification\<close>

text \<open>
  The specification calls a record valid when each of \<open>uid\<close>, \<open>sync_time\<close>,
  \<open>logged_time\<close>, \<open>type\<close>, \<open>device_identifier\<close> and \<open>person_identifier\<close> is present and
  non-empty, and \<open>type\<close> is \<open>card\<close>, \<open>fingerprint\<close> or \<open>face\<close>.
\<close>

definition present_nonempty :: "jsval \<Rightarrow> bool" where
  "present_nonempty v = (v \<noteq> JUndefined \<and> v \<noteq> JNull \<and> v \<noteq> JStr [])"

definition spec_valid :: "jsval \<Rightarrow> bool" where
  "spec_valid r =
     (present_nonempty (optProp r ''uid'') \<and>
      present_nonempty (optProp r ''sync_time'') \<and>
      present_nonempty (optProp r ''logged_time'') \<and>
      present_nonempty (optProp r ''type'') \<and>
      present_nonempty (optProp r ''device_identifier'') \<and>
      present_nonempty (optProp r ''person_identifier'') \<and>
      optProp r ''type'' \<in> {JStr ''card'', JStr ''fingerprint'', JStr ''face''})"

text \<open>
  The same with a field counting as missing when its value is falsy: absent, \<open>null\<close>, the
  empty string, and also the number 0 and \<open>false\<close>.
\<close>

definition truthy_valid :: "jsval \<Rightarrow> bool" where
  "truthy_valid r =
     (truthy (optProp r ''uid'') \<and>
      truthy (optProp r ''sync_time'') \<and>
      truthy (optProp r ''logged_time'') \<and>
      truthy (optProp r ''type'') \<and>
      truthy (optProp r ''device_identifier'') \<and>
      truthy (optProp r ''person_identifier'') \<and>
      optProp r ''type'' \<in> {JStr ''card'', JStr ''fingerprint'', JStr ''face''})"

text \<open>A field that holds text: a JSON string, \<open>null\<close>, or left out.\<close>

definition textual :: "jsval \<Rightarrow> bool" where
  "textual v = (case v of JUndefined \<Rightarrow> True | JNull \<Rightarrow> True | JStr s \<Rightarrow> True | _ \<Rightarrow> False)"

definition optionalFields :: "string list" where
  "optionalFields = [''rfid'', ''location'', ''primary_display_text'', ''secondary_display_text'']"

text \<open>
  What the specification asks of the record \<open>out\<close> produced for a kept raw record \<open>r\<close>:
  the batch project is attached, an optional field that is absent is the empty string,
  one that holds a value keeps it, and the six required fields are carried over.
\<close>

definition normalized :: "jsval \<Rightarrow> jsval \<Rightarrow> obj \<Rightarrow> bool" where
  "normalized proj r out =
     (field out ''project'' = (if proj = JUndefined then JObj [] else proj) \<and>
      list_all (\<lambda>k. (optProp r k = JUndefined \<longrightarrow> field out k = JStr []) \<and>
                     (truthy (optProp r k) \<longrightarrow> field out k = optProp r k)) optionalFields \<and>
      list_all (\<lambda>k. field out k = optProp r k)
        [''uid'', ''sync_time'', ''logged_time'', ''type'', ''device_identifier'',
         ''person_identifier''])"

text \<open>The dedup key of a record, and the keys the UID column holds below the header.\<close>

definition uidOf :: "obj \<Rightarrow> jsval" where
  "uidOf r = field r ''uid''"

definition uidColumn :: "GoogleSheetsService \<Rightarrow> jsval list" where
  "uidColumn g = map firstCell (drop 1 (sheet g))"

text \<open>A key is a truthy primitive, as the uid of every validated record of text is.\<close>

definition key_value :: "jsval \<Rightarrow> bool" where
  "key_value v = (case v of JStr s \<Rightarrow> s \<noteq> [] | JNum n \<Rightarrow> n \<noteq> 0 | JBool b \<Rightarrow> b | _ \<Rightarrow> False)"

section \<open>Example inputs\<close>

definition example_raw :: "string \<Rightarrow> string \<Rightarrow> jsval" where
  "example_raw u t =
     JObj [(''uid'', JStr u), (''sync_time'', JStr ''2025-06-15 12:00:05''),
           (''logged_time'', JStr t), (''type'', JStr ''card''),
           (''device_identifier'', JStr ''D-7''), (''person_identifier'', JStr ''P-42'')]"

definition example_project :: jsval where
  "example_project = JObj [(''code'', JStr ''PX''), (''name'', JStr ''Plant X'')]"

definition example_env :: "jsval list \<Rightarrow> env" where
  "example_env rs =
     \<lparr> clock_start = 1750000300000, clock_fetch = 1750000300001,
       clock_end = 1750000300900, currentYear = 2025,
       http = (\<lambda>req. Resolved 200 (JObj [(''data'', JArr rs), (''project'', example_project)])),
       sheets_init = None, sheets_get = None, sheets_append = None \<rparr>"

definition example_timeout :: axios_error where
  "example_timeout =
     \<lparr> ax_code = Some ''ECONNABORTED'', ax_response = None, ax_request = True,
       ax_message = ''timeout of 30000ms exceeded'' \<rparr>"

definition example_store_error :: js_error where
  "example_store_error = JsError ''Error'' ''The service is currently unavailable.''"

definition example_attendance :: AttendanceService where
  "example_attendance =
     \<lparr> baseUrl = Some ''https://logs.example/api/v1/logs'',
       apiToken = Some ''abcdefgh-0000-1111'', perPage = JNum 500,
       lastSyncTime = Some 1750000000000 \<rparr>"

definition example_service :: SyncService where
  "example_service =
     \<lparr> attendanceService = example_attendance,
       googleSheetsService = \<lparr> initialized = True, sheet = [headerRow] \<rparr>,
       isRunning = False, lastSyncResult = None \<rparr>"

definition example_processed :: "string \<Rightarrow> string \<Rightarrow> obj" where
  "example_processed u t =
     [(''uid'', JStr u), (''sync_time'', JStr ''2025-06-15 12:00:05''),
      (''logged_time'', JStr t), (''type'', JStr ''card''),
      (''device_identifier'', JStr ''D-7''), (''person_identifier'', JStr ''P-42''),
      (''project'', example_project), (''rfid'', JStr []), (''location'', JStr []),
      (''primary_display_text'', JStr []), (''secondary_display_text'', JStr [])]"

section \<open>Evaluation\<close>

lemmas model_defs =
  falsy_def js_or_def quote_def field_def array_includes_def
  getAttendanceData_request_def thrown_def getAttendanceData_try_def classify_def
  getAttendanceData_def getRecentAttendanceData_def getAttendanceDataForRange_def
  requiredFields_def validateAttendanceRecord_def normalizeRecord_def
  processAttendanceRecords_def getStatus_def headerRow_def initialize_def
  ensureInitialized_def columnA_def firstCell_def getExistingUIDs_def optProp_def
  toRow_def appendAttendanceData_def orZero_def performSync_try_def performSync_def
  performManualSync_try_def performManualSync_def fetchAttendanceData_def Let_def

lemmas example_defs =
  example_raw_def example_project_def example_env_def example_timeout_def
  example_store_error_def example_attendance_def example_service_def
  example_processed_def

section \<open>The fetch and the watermark\<close>

lemma getAttendanceData_window:
  "getAttendanceData e a startTime endTime criteria =
   getAttendanceData e a startTime' endTime' criteria"
  by (simp add: getAttendanceData_def getAttendanceData_try_def getAttendanceData_request_def)

lemma getRecentAttendanceData_fst:
  "fst (getRecentAttendanceData e a) = getAttendanceData e a w w' ''sync_time''"
proof -
  have "getAttendanceData e a
          (case lastSyncTime a of Some t \<Rightarrow> t | None \<Rightarrow> clock_fetch e - 24 * 60 * 60 * 1000)
          (clock_fetch e) ''sync_time'' = getAttendanceData e a w w' ''sync_time''"
    by (rule getAttendanceData_window)
  then show ?thesis
    by (cases "getAttendanceData e a w w' ''sync_time''")
       (simp_all add: getRecentAttendanceData_def Let_def)
qed

lemma getRecentAttendanceData_snd:
  "snd (getRecentAttendanceData e a) =
     (if isl (fst (getRecentAttendanceData e a)) then a
      else a\<lparr>lastSyncTime := Some (clock_fetch e)\<rparr>)"
  by (simp add: getRecentAttendanceData_def Let_def split: sum.splits)

text \<open>
  C1. The claim: the query issued uses exactly the window it was given, and an auto sync
  queries from the watermark (or from 24 hours ago) to now. The code builds the request
  from the calendar year alone: it asks for 1 January of the current year to 31 December
  of the next one whatever the window is, so the answer of \<open>getAttendanceData\<close> is the
  same for every window, and the fetch of an auto sync is the fetch of any other window.
\<close>

theorem getAttendanceData_window_unused:
  "params (getAttendanceData_request e a startTime endTime criteria) =
     \<lparr> q_start = string_of_nat (currentYear e) @ ''-01-01T00:00:00'',
       q_end = string_of_nat (currentYear e + 1) @ ''-12-31T23:59:59'',
       q_api_token = apiToken a, q_per_page = perPage a, q_criteria = criteria \<rparr> \<and>
   getAttendanceData e a startTime endTime criteria =
     getAttendanceData e a startTime' endTime' criteria \<and>
   fst (getRecentAttendanceData e a) = getAttendanceData e a startTime' endTime' ''sync_time''"
  using getAttendanceData_window [of e a startTime endTime criteria startTime' endTime']
    getRecentAttendanceData_fst [of e a startTime' endTime']
  by (simp add: getAttendanceData_request_def)

lemma string_of_nat_2025: "string_of_nat 2025 = ''2025''"
  by code_simp

lemma string_of_nat_2026: "string_of_nat 2026 = ''2026''"
  by code_simp

lemma getAttendanceData_request_example:
  "params (getAttendanceData_request (example_env []) example_attendance
     1750000000000 1750000300001 ''sync_time'') =
   \<lparr> q_start = ''2025-01-01T00:00:00'', q_end = ''2026-12-31T23:59:59'',
     q_api_token = Some ''abcdefgh-0000-1111'', q_per_page = JNum 500,
     q_criteria = ''sync_time'' \<rparr>"
  by (simp add: getAttendanceData_request_def example_env_def example_attendance_def
      string_of_nat_2025 string_of_nat_2026)

section \<open>The orchestrator: guard, watermark and last result\<close>

lemma performSync_running:
  "isRunning s \<Longrightarrow>
   performSync e s =
     (\<lparr> success = False, message = ''Sync already in progress'', error = None,
        recordsFetched = JUndefined, timestamp = clock_start e, duration = None,
        recordsAdded = None \<rparr>, s\<lparr>isRunning := False\<rparr>)"
  by (simp add: performSync_def performSync_try_def)

lemma performManualSync_running:
  "isRunning s \<Longrightarrow>
   performManualSync e startDate endDate s =
     (\<lparr> success = False, message = ''Another sync operation is already running'',
        error = Some ''Error'', recordsFetched = JUndefined, timestamp = clock_start e,
        duration = Some (clock_end e - clock_start e), recordsAdded = None \<rparr>,
      s\<lparr>isRunning := False\<rparr>)"
  by (simp add: performManualSync_def performManualSync_try_def)

lemma performSync_try_attendance:
  "\<not> isRunning s \<Longrightarrow>
   attendanceService (snd (performSync_try e s)) =
     snd (getRecentAttendanceData e (attendanceService s))"
  by (cases "getRecentAttendanceData e (attendanceService s)")
     (simp add: performSync_try_def Let_def split: sum.splits prod.splits)

lemma performSync_attendance:
  "attendanceService (snd (performSync e s)) =
     (if isRunning s then attendanceService s
      else snd (getRecentAttendanceData e (attendanceService s)))"
proof (cases "isRunning s")
  case True
  then show ?thesis by (simp add: performSync_running)
next
  case False
  then have "attendanceService (snd (performSync_try e s)) =
      snd (getRecentAttendanceData e (attendanceService s))"
    by (rule performSync_try_attendance)
  with False show ?thesis
    by (cases "performSync_try e s") (simp add: performSync_def Let_def split: sum.splits)
qed

text \<open>
  C2. The claim: the watermark moves to the captured now only at the end of an attempt
  that succeeds or finds nothing, and stays where it was after every failed attempt, a
  failed store append included. The code moves it inside \<open>getRecentAttendanceData\<close>, as
  soon as the fetch has returned: an attempt whose append then fails is reported as
  failed and has moved the watermark all the same.
\<close>

theorem watermark_moved_before_failed_append:
  "success (fst (performSync
       ((example_env [example_raw ''a'' ''2025-06-15 12:00:00''])
          \<lparr>sheets_append := Some example_store_error\<rparr>) example_service)) = False \<and>
   lastSyncTime (attendanceService example_service) = Some 1750000000000 \<and>
   lastSyncTime (attendanceService (snd (performSync
       ((example_env [example_raw ''a'' ''2025-06-15 12:00:00''])
          \<lparr>sheets_append := Some example_store_error\<rparr>) example_service))) =
     Some 1750000300001"
  by (simp add: model_defs example_defs)

text \<open>
  C2, as amended. The watermark is moved to the now captured by the fetch as soon as the
  fetch of an auto sync that passed the guard returns, with records or without, before
  the records are normalised and appended; it is left as it was when the attempt is
  rejected by the guard or the fetch fails, an upstream timeout included. Whatever
  happens later in the attempt does not move it back.
\<close>

theorem watermark_follows_fetch:
  "lastSyncTime (attendanceService (snd (performSync e s))) =
     (if isRunning s \<or> isl (fst (getRecentAttendanceData e (attendanceService s)))
      then lastSyncTime (attendanceService s)
      else Some (clock_fetch e))"
  by (simp add: performSync_attendance getRecentAttendanceData_snd)

text \<open>An upstream timeout fails the attempt under the name \<open>Error\<close> and leaves the watermark.\<close>

lemma watermark_unchanged_on_timeout:
  "error (fst (performSync ((example_env [])\<lparr>http := (\<lambda>req. Rejected example_timeout)\<rparr>)
      example_service)) = Some ''Error'' \<and>
   message (fst (performSync ((example_env [])\<lparr>http := (\<lambda>req. Rejected example_timeout)\<rparr>)
      example_service)) = ''Request timeout - TIPSOI API took too long to respond'' \<and>
   lastSyncTime (attendanceService (snd (performSync
      ((example_env [])\<lparr>http := (\<lambda>req. Rejected example_timeout)\<rparr>) example_service))) =
     lastSyncTime (attendanceService example_service)"
  by (simp add: model_defs example_defs)

text \<open>
  C3. The claim: a sync attempt that arrives while the flag is set is rejected at once, and
  the rejection leaves the flag set, so that only the attempt in flight clears it. In the
  code the guard stands inside the try block whose finally block clears the flag: the
  rejected call changes nothing else, and it clears the flag of the attempt in flight.
\<close>

theorem rejected_attempt_clears_flag:
  assumes "isRunning s"
  shows "snd (performSync e s) = s\<lparr>isRunning := False\<rparr> \<and>
         snd (performManualSync e startDate endDate s) = s\<lparr>isRunning := False\<rparr>"
  using assms by (simp add: performSync_running performManualSync_running)

text \<open>
  With one attempt in flight, a second call is rejected and clears the flag; a third call,
  made before the first attempt has completed, then runs the whole sequence and appends.
\<close>

theorem rejected_attempt_clears_flag_witness:
  "isRunning (example_service\<lparr>isRunning := True\<rparr>) \<and>
   snd (performSync (example_env []) (example_service\<lparr>isRunning := True\<rparr>)) = example_service \<and>
   snd (performManualSync (example_env []) 0 1 (example_service\<lparr>isRunning := True\<rparr>)) =
     example_service \<and>
   recordsAdded (fst (performSync (example_env [example_raw ''a'' ''2025-06-15 12:00:00''])
     (snd (performSync (example_env []) (example_service\<lparr>isRunning := True\<rparr>))))) = Some 1"
proof -
  have running: "isRunning (example_service\<lparr>isRunning := True\<rparr>)"
    by simp
  have cleared: "example_service\<lparr>isRunning := True, isRunning := False\<rparr> = example_service"
    by (simp add: example_service_def)
  have third: "recordsAdded (fst (performSync
      (example_env [example_raw ''a'' ''2025-06-15 12:00:00'']) example_service)) = Some 1"
    by (simp add: model_defs example_defs)
  from rejected_attempt_clears_flag [OF running, of "example_env []" 0 1] running cleared third
  show ?thesis by simp
qed

text \<open>
  C5. The claim: the read-only query appends nothing to the store and leaves the watermark
  of the auto sync alone. \<open>fetchAttendanceData\<close> does not touch the store, but it fetches
  through \<open>getRecentAttendanceData\<close>, which moves the watermark to its own now whenever the
  fetch returns.
\<close>

theorem fetchAttendanceData_moves_watermark:
  "googleSheetsService (snd (fetchAttendanceData e flt s)) = googleSheetsService s \<and>
   lastSyncTime (attendanceService (snd (fetchAttendanceData e flt s))) =
     (if isl (fst (getRecentAttendanceData e (attendanceService s)))
      then lastSyncTime (attendanceService s)
      else Some (clock_fetch e))"
proof -
  have "googleSheetsService (snd (fetchAttendanceData e flt s)) = googleSheetsService s \<and>
        attendanceService (snd (fetchAttendanceData e flt s)) =
          snd (getRecentAttendanceData e (attendanceService s))"
    by (cases "getRecentAttendanceData e (attendanceService s)")
       (simp add: fetchAttendanceData_def Let_def split: sum.splits prod.splits)
  then show ?thesis
    by (simp add: getRecentAttendanceData_snd)
qed

lemma fetchAttendanceData_example:
  "lastSyncTime (attendanceService example_service) = Some 1750000000000 \<and>
   lastSyncTime (attendanceService (snd (fetchAttendanceData (example_env [])
      [(''startTime'', JStr ''2025-06-01T00:00:00'')] example_service))) = Some 1750000300001"
  by (simp add: model_defs example_defs)

text \<open>
  C7. The claim: every sync attempt, auto or manual, replaces \<open>lastSyncResult\<close> with its
  own result. A manual sync returns its result to the caller and stores nothing.
\<close>

theorem manual_sync_keeps_lastSyncResult:
  "success (fst (performManualSync (example_env [example_raw ''a'' ''2025-06-15 12:00:00''])
      1749990000000 1750000000000 example_service)) \<and>
   recordsAdded (fst (performManualSync (example_env [example_raw ''a'' ''2025-06-15 12:00:00''])
      1749990000000 1750000000000 example_service)) = Some 1 \<and>
   lastSyncResult (snd (performManualSync (example_env [example_raw ''a'' ''2025-06-15 12:00:00''])
      1749990000000 1750000000000 example_service)) = None"
  by (simp add: model_defs example_defs)

lemma performSync_try_lastSyncResult:
  "\<not> isRunning s \<Longrightarrow> performSync_try e s = (Inr r, s') \<Longrightarrow> lastSyncResult s' = Some r"
  by (cases "getRecentAttendanceData e (attendanceService s)")
     (auto simp add: performSync_try_def Let_def split: sum.splits prod.splits if_splits)

lemma performManualSync_try_lastSyncResult:
  "lastSyncResult (snd (performManualSync_try e startDate endDate s)) = lastSyncResult s"
  by (simp add: performManualSync_try_def Let_def split: sum.splits prod.splits)

text \<open>
  C7, as amended. An auto sync that passes the guard stores the result it returns,
  successful or failed; an auto sync that is rejected and a manual sync, whatever its
  outcome, leave \<open>lastSyncResult\<close> as it was.
\<close>

theorem lastSyncResult_of_attempts:
  "lastSyncResult (snd (performSync e s)) =
     (if isRunning s then lastSyncResult s else Some (fst (performSync e s))) \<and>
   lastSyncResult (snd (performManualSync e startDate endDate s)) = lastSyncResult s"
proof -
  have auto_sync: "lastSyncResult (snd (performSync e s)) =
      (if isRunning s then lastSyncResult s else Some (fst (performSync e s)))"
  proof (cases "isRunning s")
    case True
    then show ?thesis by (simp add: performSync_running)
  next
    case False
    obtain x s' where tried: "performSync_try e s = (x, s')"
      by (cases "performSync_try e s")
    show ?thesis
    proof (cases x)
      case (Inl err)
      with tried False show ?thesis by (simp add: performSync_def Let_def)
    next
      case (Inr r)
      with tried False have "lastSyncResult s' = Some r"
        by (simp add: performSync_try_lastSyncResult)
      with tried Inr False show ?thesis by (simp add: performSync_def)
    qed
  qed
  have manual: "lastSyncResult (snd (performManualSync e startDate endDate s)) = lastSyncResult s"
    using performManualSync_try_lastSyncResult [of e startDate endDate s]
    by (cases "performManualSync_try e startDate endDate s")
       (simp add: performManualSync_def split: sum.splits)
  from auto_sync manual show ?thesis by simp
qed




section \<open>The store: existing keys and append\<close>

lemma ensureInitialized_done: "initialized g \<Longrightarrow> ensureInitialized e g = (Inr (), g)"
  by (simp add: ensureInitialized_def)

lemma firstCell_take: "firstCell (take (Suc 0) row) = firstCell row"
  by (cases row) (simp_all add: firstCell_def)

lemma firstCell_comp_take: "firstCell \<circ> take (Suc 0) = firstCell"
  by (rule ext) (simp add: firstCell_take)

lemma getExistingUIDs_read:
  assumes "initialized g" and "sheets_get e = None"
  shows "getExistingUIDs e g = (Inr (filter truthy (uidColumn g)), g)"
proof (cases "sheet g")
  case Nil
  with assms show ?thesis
    by (simp add: getExistingUIDs_def ensureInitialized_done columnA_def uidColumn_def)
next
  case (Cons hdr rows)
  have "map firstCell (map (take 1) rows) = map firstCell rows"
    by (simp add: firstCell_take)
  with assms Cons show ?thesis
    by (cases rows)
       (simp_all add: getExistingUIDs_def ensureInitialized_done columnA_def uidColumn_def
          drop_Suc firstCell_take firstCell_comp_take)
qed

lemma getExistingUIDs_read_fails:
  assumes "initialized g" and "sheets_get e = Some err"
  shows "getExistingUIDs e g = (Inr [], g)"
  using assms by (simp add: getExistingUIDs_def ensureInitialized_done)

lemma appendAttendanceData_read:
  assumes "initialized g" and "sheets_get e = None"
  shows "appendAttendanceData e g R =
     (if filter (\<lambda>r. \<not> array_includes (filter truthy (uidColumn g)) (uidOf r)) R = []
      then (Inr None, g)
      else (case sheets_append e of
              Some err \<Rightarrow> (Inl err, g)
            | None \<Rightarrow>
                (Inr (Some (length
                   (filter (\<lambda>r. \<not> array_includes (filter truthy (uidColumn g)) (uidOf r)) R))),
                 g\<lparr>sheet := sheet g @ map toRow
                   (filter (\<lambda>r. \<not> array_includes (filter truthy (uidColumn g)) (uidOf r)) R)\<rparr>)))"
  using assms
  by (cases R)
     (simp_all add: appendAttendanceData_def ensureInitialized_done getExistingUIDs_read
        uidOf_def Let_def split: option.splits)

lemma array_includes_keys:
  "list_all key_value xs \<Longrightarrow> array_includes xs v = (v \<in> set xs)"
proof (induction xs)
  case Nil
  then show ?case by (simp add: array_includes_def)
next
  case (Cons x xs)
  then have "sameValueZero x v = (x = v)"
    by (cases x) (simp_all add: key_value_def)
  with Cons show ?case by (auto simp add: array_includes_def)
qed

lemma key_value_truthy: "key_value v \<Longrightarrow> truthy v"
  by (cases v) (simp_all add: key_value_def)

lemma firstCell_toRow: "firstCell (toRow r) = uidOf r"
  by (simp add: firstCell_def toRow_def uidOf_def)

lemma existing_keys_of_rows:
  assumes "sheet g = hdr # map toRow R" and "list_all (\<lambda>r. key_value (uidOf r)) R"
  shows "uidColumn g = map uidOf R" and "filter truthy (uidColumn g) = map uidOf R"
    and "array_includes (filter truthy (uidColumn g)) v = (v \<in> set (map uidOf R))"
proof -
  from assms(1) show col: "uidColumn g = map uidOf R"
    by (simp add: uidColumn_def firstCell_toRow)
  from assms(2) have keys: "list_all key_value (map uidOf R)"
    by (simp add: list_all_iff)
  then have "list_all truthy (map uidOf R)"
    by (simp add: list_all_iff key_value_truthy)
  then show kept: "filter truthy (uidColumn g) = map uidOf R"
    by (simp add: col list_all_iff)
  from keys show "array_includes (filter truthy (uidColumn g)) v = (v \<in> set (map uidOf R))"
    by (simp add: kept array_includes_keys)
qed

lemma appendAttendanceData_rows:
  assumes "initialized g" and "sheet g = hdr # map toRow R"
    and "list_all (\<lambda>r. key_value (uidOf r)) R"
    and "sheets_get e = None" and "sheets_append e = None"
  shows "initialized (snd (appendAttendanceData e g R')) \<and>
         sheet (snd (appendAttendanceData e g R')) =
           hdr # map toRow (R @ filter (\<lambda>r. uidOf r \<notin> set (map uidOf R)) R')"
  using assms
  by (simp add: appendAttendanceData_read existing_keys_of_rows(3) [OF assms(2,3)])

lemma appendAttendanceData_nothing_new:
  assumes "initialized g" and "sheet g = hdr # map toRow R"
    and "list_all (\<lambda>r. key_value (uidOf r)) R"
    and "sheets_get e = None" and "set (map uidOf R') \<subseteq> set (map uidOf R)"
  shows "appendAttendanceData e g R' = (Inr None, g)"
proof -
  from assms(5) have "filter (\<lambda>r. uidOf r \<notin> set (map uidOf R)) R' = []"
    by (auto simp add: filter_empty_conv)
  with assms show ?thesis
    by (simp add: appendAttendanceData_read existing_keys_of_rows(3) [OF assms(2,3)])
qed

lemma appendAttendanceData_read_fails:
  assumes "initialized g" and "sheets_get e = Some err" and "attendanceRecords \<noteq> []"
  shows "getExistingUIDs e g = (Inr [], g) \<and>
         appendAttendanceData e g attendanceRecords =
           (case sheets_append e of
              Some err' \<Rightarrow> (Inl err', g)
            | None \<Rightarrow>
                (Inr (Some (length attendanceRecords)),
                 g\<lparr>sheet := sheet g @ map toRow attendanceRecords\<rparr>))"
  using assms
  by (cases attendanceRecords)
     (simp_all add: appendAttendanceData_def ensureInitialized_done getExistingUIDs_read_fails
        array_includes_def Let_def split: option.splits)

lemma processed_nonempty:
  assumes "processAttendanceRecords recs proj = Inr processed" and "processed \<noteq> []"
  shows "truthy recs \<and> js_length recs \<noteq> JNum 0"
proof (cases recs)
  case (JArr rs)
  with assms show ?thesis
    by (cases rs) (simp_all add: processAttendanceRecords_def)
qed (use assms in \<open>simp_all add: processAttendanceRecords_def\<close>)

text \<open>
  C4. The claim: a failure while reading the persisted keys propagates as a store error
  and fails the sync attempt, and is never taken for an empty set of keys. In the code
  the read sits in a try block whose catch block returns the empty array. So whenever the
  read of the keys fails in an attempt that fetched records of which some are valid, and
  the write succeeds, the attempt, auto or manual, reports success, counts every valid
  record as added and has written every one of them below the rows the sheet had,
  whatever keys those rows hold.
\<close>

theorem failed_key_read_reported_as_success:
  assumes "\<not> isRunning s" and "initialized (googleSheetsService s)"
    and "sheets_get e = Some err" and "sheets_append e = None"
    and "fst (getRecentAttendanceData e (attendanceService s)) = Inr res"
    and "processAttendanceRecords (records res) (project res) = Inr processed"
    and "processed \<noteq> []"
  shows "success (fst (performSync e s)) \<and>
         recordsAdded (fst (performSync e s)) = Some (length processed) \<and>
         sheet (googleSheetsService (snd (performSync e s))) =
           sheet (googleSheetsService s) @ map toRow processed \<and>
         success (fst (performManualSync e startDate endDate s)) \<and>
         recordsAdded (fst (performManualSync e startDate endDate s)) =
           Some (length processed) \<and>
         sheet (googleSheetsService (snd (performManualSync e startDate endDate s))) =
           sheet (googleSheetsService s) @ map toRow processed"
proof -
  let ?g = "googleSheetsService s"
  obtain a where recent: "getRecentAttendanceData e (attendanceService s) = (Inr res, a)"
    using assms(5) by (cases "getRecentAttendanceData e (attendanceService s)") simp
  have ranged: "getAttendanceDataForRange e (attendanceService s) startDate endDate = Inr res"
    using assms(5) getRecentAttendanceData_fst [of e "attendanceService s" startDate endDate]
    by (simp add: getAttendanceDataForRange_def)
  from processed_nonempty [OF assms(6,7)]
  have some: "\<not> falsy (records res)" "js_length (records res) \<noteq> JNum 0"
    by (simp_all add: falsy_def)
  from assms(7) have count: "length processed \<noteq> 0" "orZero (Some (length processed)) = length processed"
    by (simp_all add: orZero_def)
  from appendAttendanceData_read_fails [OF assms(2,3,7)] assms(4)
  have written: "appendAttendanceData e ?g processed =
      (Inr (Some (length processed)), ?g\<lparr>sheet := sheet ?g @ map toRow processed\<rparr>)"
    by simp
  have auto_sync: "success (fst (performSync e s)) \<and>
      recordsAdded (fst (performSync e s)) = Some (length processed) \<and>
      sheet (googleSheetsService (snd (performSync e s))) = sheet ?g @ map toRow processed"
    using assms(1,6) recent some count written
    by (simp add: performSync_def performSync_try_def Let_def)
  have manual: "success (fst (performManualSync e startDate endDate s)) \<and>
      recordsAdded (fst (performManualSync e startDate endDate s)) = Some (length processed) \<and>
      sheet (googleSheetsService (snd (performManualSync e startDate endDate s))) =
        sheet ?g @ map toRow processed"
    using assms(1,6) ranged some count written
    by (simp add: performManualSync_def performManualSync_try_def Let_def)
  from auto_sync manual show ?thesis by simp
qed

text \<open>
  The sheet already holds uid \<open>a\<close>, the read of the keys is rejected and the upstream sends
  \<open>a\<close> again: the attempt reports success and the UID column holds \<open>a\<close> twice.
\<close>

theorem failed_key_read_reported_as_success_witness:
  "uidColumn \<lparr> initialized = True,
     sheet = [headerRow, toRow (example_processed ''a'' ''2025-06-15 12:00:00'')] \<rparr> = [JStr ''a''] \<and>
   success (fst (performSync
     ((example_env [example_raw ''a'' ''2025-06-15 12:00:00''])
        \<lparr>sheets_get := Some example_store_error\<rparr>)
     (example_service\<lparr>googleSheetsService := \<lparr> initialized = True,
        sheet = [headerRow, toRow (example_processed ''a'' ''2025-06-15 12:00:00'')] \<rparr>\<rparr>))) \<and>
   uidColumn (googleSheetsService (snd (performSync
     ((example_env [example_raw ''a'' ''2025-06-15 12:00:00''])
        \<lparr>sheets_get := Some example_store_error\<rparr>)
     (example_service\<lparr>googleSheetsService := \<lparr> initialized = True,
        sheet = [headerRow, toRow (example_processed ''a'' ''2025-06-15 12:00:00'')] \<rparr>\<rparr>)))) =
     [JStr ''a'', JStr ''a'']"
proof -
  let ?e = "(example_env [example_raw ''a'' ''2025-06-15 12:00:00''])
        \<lparr>sheets_get := Some example_store_error\<rparr>"
  let ?g = "\<lparr> initialized = True,
        sheet = [headerRow, toRow (example_processed ''a'' ''2025-06-15 12:00:00'')] \<rparr>"
  let ?s = "example_service\<lparr>googleSheetsService := ?g\<rparr>"
  let ?res = "\<lparr> records = JArr [example_raw ''a'' ''2025-06-15 12:00:00''], meta = JObj [],
        project = example_project, links = JObj [] \<rparr>"
  have idle: "\<not> isRunning ?s" and ready: "initialized (googleSheetsService ?s)"
    by (simp_all add: example_service_def)
  have env: "sheets_get ?e = Some example_store_error" "sheets_append ?e = None"
    by (simp_all add: example_env_def)
  have fetched: "fst (getRecentAttendanceData ?e (attendanceService ?s)) = Inr ?res"
    by (simp add: model_defs example_defs)
  have valid: "processAttendanceRecords (records ?res) (project ?res) =
      Inr [example_processed ''a'' ''2025-06-15 12:00:00'']"
    by (simp add: model_defs example_defs)
  have before: "uidColumn ?g = [JStr ''a'']"
    by (simp add: uidColumn_def firstCell_def toRow_def field_def example_processed_def)
  from failed_key_read_reported_as_success [OF idle ready env fetched valid, of 0 1]
  have "success (fst (performSync ?e ?s))"
    and "sheet (googleSheetsService (snd (performSync ?e ?s))) =
      sheet (googleSheetsService ?s) @ map toRow [example_processed ''a'' ''2025-06-15 12:00:00'']"
    by simp_all
  then show ?thesis
    using before
    by (simp add: uidColumn_def firstCell_def toRow_def field_def example_processed_def)
qed

text \<open>
  C6. The claim: appending a record set and then a record set that covers it by uid leaves
  no uid twice in the store, and an append that finds nothing new returns 0. Two things
  differ in the code. An append that finds nothing new returns through a bare
  \<open>return\<close>, that is \<open>undefined\<close> (the callers turn it into 0). And the incoming batch is
  compared with the keys of the sheet only, not with itself: two records of one batch
  that share a uid are both written.
\<close>

theorem append_returns_undefined_and_keeps_batch_duplicates:
  "fst (appendAttendanceData (example_env [])
     \<lparr> initialized = True,
       sheet = [headerRow, toRow (example_processed ''a'' ''2025-06-15 12:00:00'')] \<rparr>
     [example_processed ''a'' ''2025-06-15 12:00:00'']) = Inr None \<and>
   uidColumn (snd (appendAttendanceData (example_env [])
     (snd (appendAttendanceData (example_env [])
        \<lparr> initialized = True, sheet = [headerRow] \<rparr> []))
     [example_processed ''a'' ''2025-06-15 12:00:00'',
      example_processed ''a'' ''2025-06-15 12:00:03''])) = [JStr ''a'', JStr ''a'']"
  by (simp add: model_defs example_defs uidColumn_def)

text \<open>
  C6, as amended. Take two batches in each of which no uid occurs twice and every uid is a
  non-empty key, a sheet that holds its header row only, and reads and writes that
  succeed. After appending the first batch and then the second, the sheet holds below the
  header the rows of the first batch followed by the rows of those records of the second
  whose uid the first did not have, no uid stands twice in the UID column, and the
  column holds exactly the uids of the two batches. An append of records whose uids the
  column already holds then returns \<open>undefined\<close> and leaves the sheet as it is, whether or
  not a write would have succeeded: no write is issued.
\<close>

theorem append_twice_deduplicates:
  assumes "initialized g" and "sheet g = [hdr]"
    and "sheets_get e1 = None" and "sheets_append e1 = None"
    and "sheets_get e2 = None" and "sheets_append e2 = None"
    and "distinct (map uidOf R1)" and "list_all (\<lambda>r. key_value (uidOf r)) R1"
    and "distinct (map uidOf R2)" and "list_all (\<lambda>r. key_value (uidOf r)) R2"
  shows "sheet (snd (appendAttendanceData e2 (snd (appendAttendanceData e1 g R1)) R2)) =
           hdr # map toRow (R1 @ filter (\<lambda>r. uidOf r \<notin> set (map uidOf R1)) R2) \<and>
         distinct (uidColumn (snd (appendAttendanceData e2 (snd (appendAttendanceData e1 g R1)) R2))) \<and>
         set (uidColumn (snd (appendAttendanceData e2 (snd (appendAttendanceData e1 g R1)) R2))) =
           set (map uidOf R1) \<union> set (map uidOf R2) \<and>
         (\<forall>e3 R3. sheets_get e3 = None \<and>
             set (map uidOf R3) \<subseteq> set (map uidOf R1) \<union> set (map uidOf R2) \<longrightarrow>
             appendAttendanceData e3 (snd (appendAttendanceData e2 (snd (appendAttendanceData e1 g R1)) R2)) R3 =
               (Inr None, snd (appendAttendanceData e2 (snd (appendAttendanceData e1 g R1)) R2)))"
proof -
  let ?g1 = "snd (appendAttendanceData e1 g R1)"
  let ?g2 = "snd (appendAttendanceData e2 ?g1 R2)"
  let ?new = "filter (\<lambda>r. uidOf r \<notin> set (map uidOf R1)) R2"
  from assms(2) have empty: "sheet g = hdr # map toRow []"
    by simp
  from appendAttendanceData_rows [OF assms(1) empty _ assms(3,4), of R1]
  have g1: "initialized ?g1" "sheet ?g1 = hdr # map toRow R1"
    by simp_all
  from appendAttendanceData_rows [OF g1 assms(8) assms(5,6), of R2]
  have g2: "initialized ?g2" "sheet ?g2 = hdr # map toRow (R1 @ ?new)"
    by simp_all
  from assms(8,10) have keys: "list_all (\<lambda>r. key_value (uidOf r)) (R1 @ ?new)"
    by (auto simp add: list_all_iff)
  have col: "uidColumn ?g2 = map uidOf (R1 @ ?new)"
    by (rule existing_keys_of_rows(1) [OF g2(2) keys])
  from assms(9) have fresh: "distinct (map uidOf ?new)"
    by (rule distinct_map_filter)
  have "set (map uidOf R1) \<inter> set (map uidOf ?new) = {}"
    by (auto simp add: image_iff)
  with assms(7) fresh have dist: "distinct (uidColumn ?g2)"
    by (simp add: col)
  have uids: "set (uidColumn ?g2) = set (map uidOf R1) \<union> set (map uidOf R2)"
    by (auto simp add: col)
  have again: "appendAttendanceData e3 ?g2 R3 = (Inr None, ?g2)"
    if "sheets_get e3 = None"
      and "set (map uidOf R3) \<subseteq> set (map uidOf R1) \<union> set (map uidOf R2)" for e3 R3
  proof -
    from that(2) have "set (map uidOf R3) \<subseteq> set (map uidOf (R1 @ ?new))"
      using uids by (simp add: col)
    from appendAttendanceData_nothing_new [OF g2 keys that(1) this] show ?thesis .
  qed
  from g2(2) dist uids again show ?thesis by blast
qed

text \<open>
  The first batch holds \<open>a\<close> and \<open>b\<close>, the second \<open>b\<close>, \<open>c\<close> and another reading of \<open>a\<close>:
  the sheet ends with the rows of \<open>a\<close>, \<open>b\<close> and \<open>c\<close>. A further append of \<open>c\<close> returns
  \<open>undefined\<close> although a write would have been rejected.
\<close>

theorem append_twice_deduplicates_witness:
  "distinct (map uidOf [example_processed ''b'' ''2025-06-15 12:00:01'',
      example_processed ''c'' ''2025-06-15 12:00:02'',
      example_processed ''a'' ''2025-06-15 12:00:09'']) \<and>
   sheet (snd (appendAttendanceData (example_env [])
     (snd (appendAttendanceData (example_env [])
        \<lparr> initialized = True, sheet = [headerRow] \<rparr>
        [example_processed ''a'' ''2025-06-15 12:00:00'',
         example_processed ''b'' ''2025-06-15 12:00:01'']))
     [example_processed ''b'' ''2025-06-15 12:00:01'',
      example_processed ''c'' ''2025-06-15 12:00:02'',
      example_processed ''a'' ''2025-06-15 12:00:09''])) =
     [headerRow,
      toRow (example_processed ''a'' ''2025-06-15 12:00:00''),
      toRow (example_processed ''b'' ''2025-06-15 12:00:01''),
      toRow (example_processed ''c'' ''2025-06-15 12:00:02'')] \<and>
   fst (appendAttendanceData ((example_env [])\<lparr>sheets_append := Some example_store_error\<rparr>)
     (snd (appendAttendanceData (example_env [])
        (snd (appendAttendanceData (example_env [])
           \<lparr> initialized = True, sheet = [headerRow] \<rparr>
           [example_processed ''a'' ''2025-06-15 12:00:00'',
            example_processed ''b'' ''2025-06-15 12:00:01'']))
        [example_processed ''b'' ''2025-06-15 12:00:01'',
         example_processed ''c'' ''2025-06-15 12:00:02'',
         example_processed ''a'' ''2025-06-15 12:00:09'']))
     [example_processed ''c'' ''2025-06-15 12:00:05'']) = Inr None"
proof -
  let ?g = "\<lparr> initialized = True, sheet = [headerRow] \<rparr>"
  let ?R1 = "[example_processed ''a'' ''2025-06-15 12:00:00'',
      example_processed ''b'' ''2025-06-15 12:00:01'']"
  let ?R2 = "[example_processed ''b'' ''2025-06-15 12:00:01'',
      example_processed ''c'' ''2025-06-15 12:00:02'',
      example_processed ''a'' ''2025-06-15 12:00:09'']"
  have env: "sheets_get (example_env []) = None" "sheets_append (example_env []) = None"
    by (simp_all add: example_env_def)
  have store: "initialized ?g" "sheet ?g = [headerRow]"
    by simp_all
  have uids: "map uidOf ?R1 = [JStr ''a'', JStr ''b'']"
    "map uidOf ?R2 = [JStr ''b'', JStr ''c'', JStr ''a'']"
    by (simp_all add: uidOf_def field_def example_processed_def)
  have first: "distinct (map uidOf ?R1)" "list_all (\<lambda>r. key_value (uidOf r)) ?R1"
    using uids(1) by (simp_all add: key_value_def uidOf_def field_def example_processed_def)
  have second: "distinct (map uidOf ?R2)" "list_all (\<lambda>r. key_value (uidOf r)) ?R2"
    using uids(2) by (simp_all add: key_value_def uidOf_def field_def example_processed_def)
  have new: "filter (\<lambda>r. uidOf r \<notin> set (map uidOf ?R1)) ?R2 =
      [example_processed ''c'' ''2025-06-15 12:00:02'']"
    unfolding uids(1) by (simp add: uidOf_def field_def example_processed_def)
  let ?e3 = "(example_env [])\<lparr>sheets_append := Some example_store_error\<rparr>"
  have env3: "sheets_get ?e3 = None"
    by (simp add: example_env_def)
  have old: "set (map uidOf [example_processed ''c'' ''2025-06-15 12:00:05'']) \<subseteq>
      set (map uidOf ?R1) \<union> set (map uidOf ?R2)"
    unfolding uids by (simp add: uidOf_def field_def example_processed_def)
  from append_twice_deduplicates [OF store env env first second] env3 old
  have again: "appendAttendanceData ?e3
      (snd (appendAttendanceData (example_env [])
        (snd (appendAttendanceData (example_env []) ?g ?R1)) ?R2))
      [example_processed ''c'' ''2025-06-15 12:00:05''] =
      (Inr None, snd (appendAttendanceData (example_env [])
        (snd (appendAttendanceData (example_env []) ?g ?R1)) ?R2))"
    by blast
  from append_twice_deduplicates [OF store env env first second]
  have "sheet (snd (appendAttendanceData (example_env [])
      (snd (appendAttendanceData (example_env []) ?g ?R1)) ?R2)) =
      headerRow # map toRow (?R1 @ filter (\<lambda>r. uidOf r \<notin> set (map uidOf ?R1)) ?R2)"
    by blast
  then show ?thesis
    unfolding new using second(1) again by simp
qed

section \<open>Validation and normalisation of a batch\<close>

lemma optProp_obj: "optProp (JObj kvs) k = field kvs k"
  by (simp add: optProp_def field_def)

lemma getProp_obj: "getProp (JObj kvs) k = Inr (field kvs k)"
  by (simp add: field_def)

lemma getProp_defined:
  "r \<noteq> JNull \<Longrightarrow> r \<noteq> JUndefined \<Longrightarrow> getProp r k = Inr (optProp r k)"
  by (cases r) (simp_all add: optProp_def)

lemma hasFields_defined:
  "r \<noteq> JNull \<Longrightarrow> r \<noteq> JUndefined \<Longrightarrow>
   hasFields r fs = Inr (list_all (\<lambda>f. truthy (optProp r f)) fs)"
  by (induction fs) (simp_all add: getProp_defined falsy_def del: getProp.simps)

lemma array_includes_strings:
  "array_includes [JStr a, JStr b, JStr c] t = (t \<in> {JStr a, JStr b, JStr c})"
  by (auto simp add: array_includes_def)

text \<open>
  On any value but \<open>null\<close> and \<open>undefined\<close> the validation is the conjunction of the six
  truthiness tests and the test of the type.
\<close>

lemma validateAttendanceRecord_defined:
  assumes "r \<noteq> JNull" and "r \<noteq> JUndefined"
  shows "validateAttendanceRecord r = Inr (truthy_valid r)"
proof -
  from assms have "hasFields r requiredFields =
      Inr (list_all (\<lambda>f. truthy (optProp r f)) requiredFields)"
    by (rule hasFields_defined)
  with assms show ?thesis
    by (auto simp add: validateAttendanceRecord_def getProp_defined requiredFields_def
        truthy_valid_def array_includes_strings simp del: getProp.simps hasFields.simps)
qed

lemma filterRecords_defined:
  "list_all (\<lambda>r. r \<noteq> JNull \<and> r \<noteq> JUndefined) rs \<Longrightarrow>
   filterRecords rs = Inr (filter truthy_valid rs)"
  by (induction rs) (simp_all add: validateAttendanceRecord_defined)

lemma truthy_valid_obj: "truthy_valid r \<Longrightarrow> \<exists>kvs. r = JObj kvs"
  by (cases r) (simp_all add: truthy_valid_def optProp_def)

text \<open>Where the six fields hold text, the truthiness test is the specification's test.\<close>

lemma truthy_textual: "textual v \<Longrightarrow> truthy v = present_nonempty v"
  by (cases v) (simp_all add: textual_def present_nonempty_def)

lemma truthy_valid_textual:
  assumes "list_all (\<lambda>k. textual (optProp r k))
     [''uid'', ''sync_time'', ''logged_time'', ''type'', ''device_identifier'',
      ''person_identifier'']"
  shows "truthy_valid r = spec_valid r"
  using assms by (simp add: truthy_valid_def spec_valid_def truthy_textual)

lemma field_setProp:
  "field (setProp k v kvs) k' = (if k' = k then v else field kvs k')"
  by (induction kvs) (auto simp add: field_def)

lemma normalizeRecord_obj:
  "\<exists>out. normalizeRecord (if proj = JUndefined then JObj [] else proj) (JObj kvs) = Inr out \<and>
         normalized proj (JObj kvs) out"
  by (simp add: normalizeRecord_def normalized_def field_setProp optProp_obj js_or_def
      optionalFields_def getProp_obj del: getProp.simps)

lemma mapRecords_valid:
  "list_all truthy_valid rs \<Longrightarrow>
   \<exists>outs. mapRecords (if proj = JUndefined then JObj [] else proj) rs = Inr outs \<and>
          list_all2 (normalized proj) rs outs"
proof (induction rs)
  case Nil
  then show ?case by simp
next
  case (Cons r rs)
  then obtain kvs where r: "r = JObj kvs"
    by (auto dest: truthy_valid_obj)
  obtain out where out:
    "normalizeRecord (if proj = JUndefined then JObj [] else proj) r = Inr out"
    "normalized proj r out"
    using normalizeRecord_obj [of proj kvs] r by auto
  from Cons obtain outs where outs:
    "mapRecords (if proj = JUndefined then JObj [] else proj) rs = Inr outs"
    "list_all2 (normalized proj) rs outs"
    by auto
  from out outs show ?case by simp
qed

text \<open>
  C9. The claim: for every list of raw records the batch never fails, and the records
  dropped are exactly those in which one of the six required fields is not present and
  non-empty or whose type is not one of the three. Two inputs show otherwise. A \<open>null\<close>
  element of the list makes the validation raise a TypeError, which fails the whole
  batch. And a record that has every required field present and non-empty, with the
  number 0 as its \<open>person_identifier\<close>, is valid for the specification and is dropped.
\<close>

theorem null_element_fails_batch_and_zero_field_is_dropped:
  "processAttendanceRecords (JArr [example_raw ''a'' ''2025-06-15 12:00:00'', JNull])
     example_project =
     Inl (JsError ''TypeError'' (''Cannot read properties of null (reading '' @ quote ''uid'' @ '')'')) \<and>
   spec_valid (JObj [(''uid'', JStr ''b''), (''sync_time'', JStr ''2025-06-15 12:00:05''),
     (''logged_time'', JStr ''2025-06-15 12:00:01''), (''type'', JStr ''card''),
     (''device_identifier'', JStr ''D-7''), (''person_identifier'', JNum 0)]) \<and>
   processAttendanceRecords (JArr
     [JObj [(''uid'', JStr ''b''), (''sync_time'', JStr ''2025-06-15 12:00:05''),
        (''logged_time'', JStr ''2025-06-15 12:00:01''), (''type'', JStr ''card''),
        (''device_identifier'', JStr ''D-7''), (''person_identifier'', JNum 0)]])
     example_project = Inr []"
  by (simp add: model_defs example_defs spec_valid_def present_nonempty_def)

text \<open>
  C9, as amended. For every list of raw records none of which is \<open>null\<close>, the batch does
  not fail; the records kept are, in the order received, exactly those in which each of
  \<open>uid\<close>, \<open>sync_time\<close>, \<open>logged_time\<close>, \<open>type\<close>, \<open>device_identifier\<close> and
  \<open>person_identifier\<close> holds a truthy value (it is not absent, \<open>null\<close>, the empty string, 0
  or \<open>false\<close>) and whose \<open>type\<close> is \<open>card\<close>, \<open>fingerprint\<close> or \<open>face\<close>; and each record
  kept comes out with the batch project attached, with the empty string for every one of
  \<open>rfid\<close>, \<open>location\<close>, \<open>primary_display_text\<close> and \<open>secondary_display_text\<close> that is
  absent, and with its six required fields as they were.
\<close>

theorem processAttendanceRecords_keeps_truthy_valid:
  assumes "list_all (\<lambda>r. r \<noteq> JNull \<and> r \<noteq> JUndefined) rs"
  shows "\<exists>outs. processAttendanceRecords (JArr rs) proj = Inr outs \<and>
           list_all2 (normalized proj) (filter truthy_valid rs) outs"
proof -
  from assms have kept: "filterRecords rs = Inr (filter truthy_valid rs)"
    by (rule filterRecords_defined)
  have "list_all truthy_valid (filter truthy_valid rs)"
    by (simp add: list_all_iff)
  from mapRecords_valid [OF this, of proj] kept show ?thesis
    by (simp add: processAttendanceRecords_def)
qed

text \<open>
  Five elements: a complete record, one without \<open>person_identifier\<close>, one of an unknown
  type, one whose \<open>person_identifier\<close> is the number 0, and a bare number. Only the first
  comes out, with the project and the four defaults.
\<close>

theorem processAttendanceRecords_keeps_truthy_valid_witness:
  "list_all (\<lambda>r. r \<noteq> JNull \<and> r \<noteq> JUndefined)
     [example_raw ''a'' ''2025-06-15 12:00:00'',
      JObj [(''uid'', JStr ''b''), (''sync_time'', JStr ''2025-06-15 12:00:05''),
            (''logged_time'', JStr ''2025-06-15 12:00:01''), (''type'', JStr ''face''),
            (''device_identifier'', JStr ''D-7'')],
      JObj [(''uid'', JStr ''c''), (''sync_time'', JStr ''2025-06-15 12:00:05''),
            (''logged_time'', JStr ''2025-06-15 12:00:02''), (''type'', JStr ''pin''),
            (''device_identifier'', JStr ''D-7''), (''person_identifier'', JStr ''P-42'')],
      JObj [(''uid'', JStr ''d''), (''sync_time'', JStr ''2025-06-15 12:00:05''),
            (''logged_time'', JStr ''2025-06-15 12:00:03''), (''type'', JStr ''card''),
            (''device_identifier'', JStr ''D-7''), (''person_identifier'', JNum 0)],
      JNum 7] \<and>
   processAttendanceRecords (JArr
     [example_raw ''a'' ''2025-06-15 12:00:00'',
      JObj [(''uid'', JStr ''b''), (''sync_time'', JStr ''2025-06-15 12:00:05''),
            (''logged_time'', JStr ''2025-06-15 12:00:01''), (''type'', JStr ''face''),
            (''device_identifier'', JStr ''D-7'')],
      JObj [(''uid'', JStr ''c''), (''sync_time'', JStr ''2025-06-15 12:00:05''),
            (''logged_time'', JStr ''2025-06-15 12:00:02''), (''type'', JStr ''pin''),
            (''device_identifier'', JStr ''D-7''), (''person_identifier'', JStr ''P-42'')],
      JObj [(''uid'', JStr ''d''), (''sync_time'', JStr ''2025-06-15 12:00:05''),
            (''logged_time'', JStr ''2025-06-15 12:00:03''), (''type'', JStr ''card''),
            (''device_identifier'', JStr ''D-7''), (''person_identifier'', JNum 0)],
      JNum 7])
     example_project = Inr [example_processed ''a'' ''2025-06-15 12:00:00'']"
proof -
  let ?rs = "[example_raw ''a'' ''2025-06-15 12:00:00'',
      JObj [(''uid'', JStr ''b''), (''sync_time'', JStr ''2025-06-15 12:00:05''),
            (''logged_time'', JStr ''2025-06-15 12:00:01''), (''type'', JStr ''face''),
            (''device_identifier'', JStr ''D-7'')],
      JObj [(''uid'', JStr ''c''), (''sync_time'', JStr ''2025-06-15 12:00:05''),
            (''logged_time'', JStr ''2025-06-15 12:00:02''), (''type'', JStr ''pin''),
            (''device_identifier'', JStr ''D-7''), (''person_identifier'', JStr ''P-42'')],
      JObj [(''uid'', JStr ''d''), (''sync_time'', JStr ''2025-06-15 12:00:05''),
            (''logged_time'', JStr ''2025-06-15 12:00:03''), (''type'', JStr ''card''),
            (''device_identifier'', JStr ''D-7''), (''person_identifier'', JNum 0)],
      JNum 7]"
  have defined: "list_all (\<lambda>r. r \<noteq> JNull \<and> r \<noteq> JUndefined) ?rs"
    by (simp add: example_raw_def)
  have valid: "filter truthy_valid ?rs = [example_raw ''a'' ''2025-06-15 12:00:00'']"
    by (simp add: truthy_valid_def example_raw_def optProp_def)
  from processAttendanceRecords_keeps_truthy_valid [OF defined, of example_project]
  obtain outs where outs: "processAttendanceRecords (JArr ?rs) example_project = Inr outs"
    and norm: "list_all2 (normalized example_project) (filter truthy_valid ?rs) outs"
    by blast
  from norm [unfolded valid] have "length outs = 1"
    by (auto simp add: list_all2_Cons1)
  moreover have "processAttendanceRecords (JArr ?rs) example_project =
      Inr [example_processed ''a'' ''2025-06-15 12:00:00'']"
    by (simp add: model_defs example_defs)
  ultimately show ?thesis using defined by simp
qed

section \<open>The status of the attendance service\<close>

text \<open>
  C10. The status of the attendance service shows of the API token only whether one is
  set and its first 8 characters: two services that agree on everything but the
  characters of the token after the eighth have the same status.
\<close>

theorem getStatus_token_prefix_only:
  assumes "map_option (take 8) (apiToken a) = map_option (take 8) (apiToken b)"
    and "baseUrl a = baseUrl b" and "perPage a = perPage b"
    and "lastSyncTime a = lastSyncTime b"
  shows "getStatus a = getStatus b"
proof -
  have empty: "(t = []) = (t' = [])" if "take 8 t = take 8 t'" for t t' :: string
    using that by (cases t; cases t') simp_all
  show ?thesis
  proof (cases "apiToken a")
    case None
    with assms show ?thesis by (simp add: getStatus_def)
  next
    case (Some t)
    with assms(1) obtain t' where b: "apiToken b = Some t'" and eq: "take 8 t = take 8 t'"
      by (cases "apiToken b") simp_all
    from eq have "(t = []) = (t' = [])" by (rule empty)
    with Some b eq assms show ?thesis by (simp add: getStatus_def)
  qed
qed

theorem getStatus_token_prefix_only_witness:
  "apiToken (example_attendance\<lparr>apiToken := Some ''abcdefgh-9999-8888-7777''\<rparr>) \<noteq>
     apiToken example_attendance \<and>
   getStatus (example_attendance\<lparr>apiToken := Some ''abcdefgh-9999-8888-7777''\<rparr>) =
     getStatus example_attendance \<and>
   tokenPreview (getStatus example_attendance) = ''abcdefgh...''"
proof -
  have "getStatus (example_attendance\<lparr>apiToken := Some ''abcdefgh-9999-8888-7777''\<rparr>) =
      getStatus example_attendance"
    by (rule getStatus_token_prefix_only) (simp_all add: example_attendance_def)
  then show ?thesis by (simp add: example_attendance_def getStatus_def)
qed

end
